theory Spec2Isabelle
  imports Main
begin

section \<open>The reporter of generate-report.ts as HOL functions\<close>

text \<open>
  The class \<open>GenerateCtrfReport\<close> turns the suite tree of a test run into a CTRF report.
  Its methods mutate \<open>this\<close>; here each method takes the reporter and returns the new one.
  A method that can throw returns \<open>thrown + 'a\<close>, with \<open>Inl\<close> for the exception that
  leaves the method. The numbers (counters, times in milliseconds or seconds, retry counts)
  are \<open>int\<close>, strings are \<open>string\<close>, an optional property is an
  \<open>option\<close> (\<open>None\<close> stands for a property that is \<open>undefined\<close> or absent: JSON.stringify
  writes neither).
\<close>

subsection \<open>Values of the runtime\<close>

text \<open>
  What a \<open>throw\<close> carries: an instance of \<open>Error\<close> with its name and message, or any other
  value, kept as the text \<open>String(value)\<close> gives.
\<close>

datatype thrown = Error string string | NonError string

text \<open>
  The result of \<open>JSON.parse\<close>. Numbers are kept abstract in \<open>'n\<close>. \<open>JObj\<close> lists the own
  properties of the parsed object, each key once.
\<close>

datatype 'n json =
    JNull
  | JBool bool
  | JNum 'n
  | JStr string
  | JArr "'n json list"
  | JObj "(string \<times> 'n json) list"

text \<open>
  The library calls the reporter makes, as parameters: \<open>JSON_parse b\<close> is
  \<open>JSON.parse(b.toString('utf-8'))\<close> on the bytes \<open>b\<close> of a buffer, \<open>toBase64 b\<close> is
  \<open>b.toString('base64')\<close>, \<open>ToString v\<close> is the conversion a template literal applies to a
  number, an array or an object (it can throw). \<open>existsSync\<close> and \<open>mkdirSync\<close> stand for
  the calls of \<open>fs\<close> on a directory (\<open>Some e\<close>: the call throws \<open>e\<close>), and \<open>writeFileSync\<close>
  for the write to the file of a directory.
\<close>

record 'n Runtime =
  JSON_parse :: "string \<Rightarrow> thrown + 'n json"
  toBase64 :: "string \<Rightarrow> string"
  ToString :: "'n json \<Rightarrow> thrown + string"
  existsSync :: "string \<Rightarrow> bool"
  mkdirSync :: "string \<Rightarrow> thrown option"
  writeFileSync :: "string \<Rightarrow> string \<Rightarrow> thrown option"

datatype console_line = ConsoleLog string | ConsoleError string

text \<open>\<open>a ?? b\<close>\<close>

definition orElse :: "'a option \<Rightarrow> 'a \<Rightarrow> 'a" where
  "orElse a b = (case a of None \<Rightarrow> b | Some x \<Rightarrow> x)"

text \<open>
  \<open>v?.k\<close> for a parsed value \<open>v\<close>, read at the keys \<open>name\<close> and \<open>version\<close> only, which no
  prototype of a JSON value defines: an object gives its own property, every other value
  (\<open>null\<close> included, by the optional chain) gives \<open>undefined\<close>.
\<close>

fun optProp :: "'n json \<Rightarrow> string \<Rightarrow> 'n json option" where
  "optProp (JObj kvs) k = map_of kvs k"
| "optProp _ k = None"

text \<open>The text of \<open>${v}\<close> in a template literal.\<close>

definition templateText :: "'n Runtime \<Rightarrow> 'n json option \<Rightarrow> thrown + string" where
  "templateText rt v =
     (case v of
        None \<Rightarrow> Inr ''undefined''
      | Some JNull \<Rightarrow> Inr ''null''
      | Some (JBool b) \<Rightarrow> Inr (if b then ''true'' else ''false'')
      | Some (JStr s) \<Rightarrow> Inr s
      | Some x \<Rightarrow> ToString rt x)"

text \<open>\<open>xs[i]\<close>: \<open>undefined\<close> outside the array.\<close>

definition at_index :: "'a list \<Rightarrow> int \<Rightarrow> 'a option" where
  "at_index xs i = (if 0 \<le> i \<and> i < int (length xs) then Some (xs ! nat i) else None)"

text \<open>\<open>s.endsWith(suf)\<close>\<close>

definition endsWith :: "string \<Rightarrow> string \<Rightarrow> bool" where
  "endsWith s suf =
     (length suf \<le> length s \<and> drop (length s - length suf) s = suf)"

text \<open>\<open>xs.join(sep)\<close> on an array of strings.\<close>

fun join :: "string \<Rightarrow> string list \<Rightarrow> string" where
  "join sep [] = []"
| "join sep [x] = x"
| "join sep (x # y # ys) = x @ sep @ join sep (y # ys)"

subsection \<open>What the host hands over\<close>

text \<open>
  The types of \<open>@playwright/test/reporter\<close>, with the properties the reporter reads. A
  \<open>Suite\<close> is read in two directions: downwards through \<open>tests\<close> and \<open>suites\<close> by the
  traversal (the datatype \<open>Suite\<close>), and upwards through \<open>title\<close> and \<open>parent\<close> from a test
  case (the datatype \<open>ParentSuite\<close>, a chain that ends at the root).
\<close>

record Attachment =
  name :: string
  contentType :: string
  body :: "string option"

record TestError =
  message :: "string option"
  stack :: "string option"

record TestResult =
  status :: string
  duration :: int
  startTime :: int   \<comment> \<open>\<open>startTime.getTime()\<close>, milliseconds\<close>
  retry :: int
  attachments :: "Attachment list"
  error :: "TestError option"

datatype ParentSuite = ParentSuite (suiteTitle: string) (suiteParent: "ParentSuite option")

record TestCase =
  title :: string
  location_file :: string
  results :: "TestResult list"
  parent :: ParentSuite

datatype Suite = Suite "TestCase list" "Suite list"

subsection \<open>The report\<close>

text \<open>
  The fields of \<open>CtrfTest\<close> carry the prefix \<open>t_\<close>, since most of their names are also
  names of the host's properties.
\<close>

record CtrfTest =
  t_name :: string
  t_status :: string
  t_duration :: int
  t_start :: "int option"
  t_stop :: "int option"
  t_message :: "string option"
  t_trace :: "string option"
  t_rawStatus :: "string option"
  t_tags :: "string list option"
  t_type :: "string option"
  t_filePath :: "string option"
  t_retry :: "int option"
  t_flake :: "bool option"
  t_screenshot :: "string option"
  t_suite :: "string option"
  t_browser :: "string option"

record Summary =
  tests :: int
  passed :: int
  failed :: int
  pending :: int
  skipped :: int
  other :: int
  suites :: "int option"
  start :: int
  stop :: int

text \<open>\<open>ctrfReport.results\<close>; the environment lists its keys in the order they were set.\<close>

record CtrfReport =
  tool_name :: string
  summary :: Summary
  report_tests :: "CtrfTest list"
  environment :: "(string \<times> string) list option"

record ReporterConfigOptions =
  outputFile :: "string option"
  outputDir :: "string option"
  minimal :: "bool option"
  screenshot :: "bool option"
  testType :: "string option"
  appName :: "string option"
  appVersion :: "string option"
  osPlatform :: "string option"
  osRelease :: "string option"
  osVersion :: "string option"
  buildName :: "string option"
  buildNumber :: "string option"

text \<open>
  The reporter object. \<open>console\<close> holds the lines written to the console and \<open>files\<close> the
  writes done (directory, file name, data), both in order.
\<close>

record Reporter =
  ctrfReport :: CtrfReport
  ctrfEnvironment :: "(string \<times> string) list"
  reporterConfigOptions :: ReporterConfigOptions
  suite :: "Suite option"
  runStartTime :: "int option"
  console :: "console_line list"
  files :: "(string \<times> string \<times> CtrfReport) list"

definition reporterName :: string where
  "reporterName = ''playwright-ctrf-json-reporter''"

definition defaultOutputFile :: string where
  "defaultOutputFile = ''ctrf-report.json''"

definition defaultOutputDir :: string where
  "defaultOutputDir = ''ctrf''"

subsection \<open>constructor\<close>

definition constructor :: "ReporterConfigOptions option \<Rightarrow> Reporter" where
  "constructor config =
     \<lparr> ctrfReport =
         \<lparr> tool_name = ''playwright'',
           summary = \<lparr> tests = 0, passed = 0, failed = 0, pending = 0, skipped = 0,
                       other = 0, suites = None, start = 0, stop = 0 \<rparr>,
           report_tests = [],
           environment = None \<rparr>,
       ctrfEnvironment = [],
       reporterConfigOptions =
         \<lparr> outputFile = Some (orElse (Option.bind config outputFile) defaultOutputFile),
           outputDir = Some (orElse (Option.bind config outputDir) defaultOutputDir),
           minimal = Some (orElse (Option.bind config minimal) False),
           screenshot = Some (orElse (Option.bind config screenshot) False),
           testType = Some (orElse (Option.bind config testType) ''e2e''),
           appName = Option.bind config appName,
           appVersion = Option.bind config appVersion,
           osPlatform = Option.bind config osPlatform,
           osRelease = Option.bind config osRelease,
           osVersion = Option.bind config osVersion,
           buildName = Option.bind config buildName,
           buildNumber = Option.bind config buildNumber \<rparr>,
       suite = None,
       runStartTime = None,
       console = [],
       files = [] \<rparr>"

subsection \<open>setFilename\<close>

definition setFilename :: "string \<Rightarrow> Reporter \<Rightarrow> Reporter" where
  "setFilename filename r =
     (if endsWith filename ''.json''
      then r\<lparr>reporterConfigOptions := (reporterConfigOptions r)\<lparr>outputFile := Some filename\<rparr>\<rparr>
      else r\<lparr>reporterConfigOptions :=
               (reporterConfigOptions r)\<lparr>outputFile := Some (filename @ ''.json'')\<rparr>\<rparr>)"

subsection \<open>mapPlaywrightStatusToCtrf\<close>

definition mapPlaywrightStatusToCtrf :: "string \<Rightarrow> string" where
  "mapPlaywrightStatusToCtrf testStatus =
     (if testStatus = ''passed'' then ''passed''
      else if testStatus = ''failed'' \<or> testStatus = ''timedOut'' \<or> testStatus = ''interrupted''
        then ''failed''
      else if testStatus = ''skipped'' then ''skipped''
      else if testStatus = ''pending'' then ''pending''
      else ''other'')"

subsection \<open>setEnvironmentDetails, hasEnvironmentDetails\<close>

text \<open>\<open>obj.k = v\<close> on an object kept as a list of its properties.\<close>

fun setProp :: "string \<Rightarrow> string \<Rightarrow> (string \<times> string) list \<Rightarrow> (string \<times> string) list" where
  "setProp k v [] = [(k, v)]"
| "setProp k v ((k', v') # kvs) =
     (if k' = k then (k, v) # kvs else (k', v') # setProp k v kvs)"

definition setEnvironmentDetail ::
  "string \<Rightarrow> string option \<Rightarrow> (string \<times> string) list \<Rightarrow> (string \<times> string) list" where
  "setEnvironmentDetail k opt env = (case opt of None \<Rightarrow> env | Some v \<Rightarrow> setProp k v env)"

definition setEnvironmentDetails :: "ReporterConfigOptions \<Rightarrow> Reporter \<Rightarrow> Reporter" where
  "setEnvironmentDetails opts r =
     r\<lparr>ctrfEnvironment :=
         (setEnvironmentDetail ''buildNumber'' (buildNumber opts)
         (setEnvironmentDetail ''buildName'' (buildName opts)
         (setEnvironmentDetail ''osVersion'' (osVersion opts)
         (setEnvironmentDetail ''osRelease'' (osRelease opts)
         (setEnvironmentDetail ''osPlatform'' (osPlatform opts)
         (setEnvironmentDetail ''appVersion'' (appVersion opts)
         (setEnvironmentDetail ''appName'' (appName opts)
            (ctrfEnvironment r))))))))\<rparr>"

definition hasEnvironmentDetails :: "(string \<times> string) list \<Rightarrow> bool" where
  "hasEnvironmentDetails env = (length (map fst env) > 0)"

subsection \<open>updateStart, calculateStopTime\<close>

definition updateStart :: "int \<Rightarrow> int" where
  "updateStart startTime_ms = startTime_ms div 1000"

definition calculateStopTime :: "int \<Rightarrow> int \<Rightarrow> int" where
  "calculateStopTime startTime_ms duration_ms = (startTime_ms + duration_ms) div 1000"

subsection \<open>buildSuitePath\<close>

text \<open>
  The \<open>while\<close> loop: \<open>currentSuite\<close> and \<open>pathComponents\<close> are the arguments, and
  \<open>unshift\<close> puts a title in front.
\<close>

fun buildSuitePath_loop :: "ParentSuite option \<Rightarrow> string list \<Rightarrow> string list" where
  "buildSuitePath_loop None pathComponents = pathComponents"
| "buildSuitePath_loop (Some (ParentSuite ttl p)) pathComponents =
     buildSuitePath_loop p (if ttl \<noteq> [] then ttl # pathComponents else pathComponents)"

definition buildSuitePath :: "TestCase \<Rightarrow> string" where
  "buildSuitePath test = join '' > '' (buildSuitePath_loop (Some (parent test)) [])"

subsection \<open>extractTagsFromTitle\<close>

text \<open>\<open>\w\<close>: a letter, a digit or the underscore, of ASCII.\<close>

definition isWordChar :: "char \<Rightarrow> bool" where
  "isWordChar c =
     (let n = (of_char c :: nat)
      in (48 \<le> n \<and> n \<le> 57) \<or> (65 \<le> n \<and> n \<le> 90) \<or> n = 95 \<or> (97 \<le> n \<and> n \<le> 122))"

text \<open>
  \<open>title.match(/@\w+/g)\<close>: the matches from left to right, each as long as it can be, the
  search going on behind the last match.
\<close>

function matchTags :: "string \<Rightarrow> string list" where
  "matchTags [] = []"
| "matchTags (c # cs) =
     (if c = CHR ''@'' \<and> takeWhile isWordChar cs \<noteq> []
      then (c # takeWhile isWordChar cs) # matchTags (dropWhile isWordChar cs)
      else matchTags cs)"
  by pat_completeness auto
termination
  by (relation "measure length") (auto simp: length_dropWhile_le less_Suc_eq_le)

definition extractTagsFromTitle :: "string \<Rightarrow> string list" where
  "extractTagsFromTitle ttl = matchTags ttl"

subsection \<open>extractScreenshotBase64\<close>

definition extractScreenshotBase64 :: "'n Runtime \<Rightarrow> TestResult \<Rightarrow> string option" where
  "extractScreenshotBase64 rt testResult =
     (case find (\<lambda>attachment.
                   name attachment = ''screenshot'' \<and>
                   (contentType attachment = ''image/jpeg'' \<or>
                    contentType attachment = ''image/png''))
             (attachments testResult) of
        None \<Rightarrow> None
      | Some screenshotAttachment \<Rightarrow>
          (case body screenshotAttachment of
             None \<Rightarrow> None
           | Some b \<Rightarrow> Some (toBase64 rt b)))"

subsection \<open>extractFailureDetails\<close>

text \<open>The partial test record it returns has \<open>message\<close> and \<open>trace\<close> only.\<close>

record FailureDetails =
  fd_message :: "string option"
  fd_trace :: "string option"

definition extractFailureDetails :: "TestResult \<Rightarrow> FailureDetails" where
  "extractFailureDetails testResult =
     (if status testResult = ''failed'' \<and> error testResult \<noteq> None
      then (case error testResult of
              Some e \<Rightarrow> \<lparr> fd_message = message e, fd_trace = stack e \<rparr>
            | None \<Rightarrow> \<lparr> fd_message = None, fd_trace = None \<rparr>)
      else \<lparr> fd_message = None, fd_trace = None \<rparr>)"

subsection \<open>extractMetadata\<close>

text \<open>
  It returns the parsed value, or \<open>null\<close>; the console is passed through, since the
  \<open>catch\<close> writes to it.
\<close>

definition extractMetadata ::
  "'n Runtime \<Rightarrow> TestResult \<Rightarrow> console_line list \<Rightarrow> 'n json \<times> console_line list" where
  "extractMetadata rt testResult con =
     (case find (\<lambda>attachment. name attachment = ''metadata.json'') (attachments testResult) of
        None \<Rightarrow> (JNull, con)
      | Some metadataAttachment \<Rightarrow>
          (case body metadataAttachment of
             None \<Rightarrow> (JNull, con)
           | Some b \<Rightarrow>
               (case JSON_parse rt b of
                  Inr v \<Rightarrow> (v, con)
                | Inl (Error n m) \<Rightarrow>
                    (JNull, con @ [ConsoleError (''Error parsing browser metadata: '' @ m)])
                | Inl (NonError x) \<Rightarrow>
                    (JNull,
                     con @ [ConsoleError
                              ''An unknown error occurred in parsing browser metadata'']))))"

subsection \<open>updateCtrfTestResultsFromTestResult\<close>

text \<open>
  The condition of the last \<open>if\<close>: \<open>||\<close> calls \<open>extractMetadata\<close> a second time only
  when the first call gave no \<open>name\<close>.
\<close>

definition browserCondition ::
  "'n Runtime \<Rightarrow> TestResult \<Rightarrow> console_line list \<Rightarrow> bool \<times> console_line list" where
  "browserCondition rt testResult con =
     (case extractMetadata rt testResult con of
        (m1, c1) \<Rightarrow>
          if optProp m1 ''name'' \<noteq> None then (True, c1)
          else (case extractMetadata rt testResult c1 of
                  (m2, c2) \<Rightarrow> (optProp m2 ''version'' \<noteq> None, c2)))"

text \<open>The template literal of that \<open>if\<close>, with its two calls of \<open>extractMetadata\<close>.\<close>

definition browserTemplate ::
  "'n Runtime \<Rightarrow> TestResult \<Rightarrow> console_line list \<Rightarrow> thrown + string \<times> console_line list" where
  "browserTemplate rt testResult con =
     (case extractMetadata rt testResult con of
        (m3, c3) \<Rightarrow>
          (case templateText rt (optProp m3 ''name'') of
             Inl e \<Rightarrow> Inl e
           | Inr n \<Rightarrow>
               (case extractMetadata rt testResult c3 of
                  (m4, c4) \<Rightarrow>
                    (case templateText rt (optProp m4 ''version'') of
                       Inl e \<Rightarrow> Inl e
                     | Inr v \<Rightarrow> Inr (n @ '' '' @ v, c4)))))"

text \<open>\<open>ctrfReport.results.tests.push(test)\<close>\<close>

definition pushTest :: "CtrfTest \<Rightarrow> Reporter \<Rightarrow> Reporter" where
  "pushTest test r =
     r\<lparr>ctrfReport := (ctrfReport r)\<lparr>report_tests := report_tests (ctrfReport r) @ [test]\<rparr>\<rparr>"

text \<open>Reading a property of \<open>undefined\<close> throws a TypeError.\<close>

definition undefinedRead :: thrown where
  "undefinedRead = Error ''TypeError'' ''Cannot read properties of undefined''"

definition updateCtrfTestResultsFromTestResult ::
  "'n Runtime \<Rightarrow> TestCase \<Rightarrow> TestResult option \<Rightarrow> Reporter \<Rightarrow> thrown + Reporter" where
  "updateCtrfTestResultsFromTestResult rt testCase testResult r =
     (case testResult of
        None \<Rightarrow> Inl undefinedRead
      | Some tr \<Rightarrow>
          (let test =
                 \<lparr> t_name = title testCase,
                   t_status = mapPlaywrightStatusToCtrf (status tr),
                   t_duration = duration tr,
                   t_start = None, t_stop = None, t_message = None, t_trace = None,
                   t_rawStatus = None, t_tags = None, t_type = None, t_filePath = None,
                   t_retry = None, t_flake = None, t_screenshot = None, t_suite = None,
                   t_browser = None \<rparr>
           in if minimal (reporterConfigOptions r) = Some False
              then
                (let test1 =
                       test\<lparr> t_start := Some (updateStart (startTime tr)),
                             t_stop := Some (calculateStopTime (startTime tr) (duration tr)),
                             t_message := fd_message (extractFailureDetails tr),
                             t_trace := fd_trace (extractFailureDetails tr),
                             t_rawStatus := Some (status tr),
                             t_tags := Some (extractTagsFromTitle (title testCase)),
                             t_type := Some (orElse (testType (reporterConfigOptions r)) ''e2e''),
                             t_filePath := Some (location_file testCase),
                             t_retry := Some (retry tr),
                             t_flake := Some (status tr = ''passed'' \<and> retry tr > 0) \<rparr>;
                     test2 =
                       (if screenshot (reporterConfigOptions r) = Some True
                        then test1\<lparr> t_screenshot := extractScreenshotBase64 rt tr \<rparr>
                        else test1);
                     test3 = test2\<lparr> t_suite := Some (buildSuitePath testCase) \<rparr>
                 in case browserCondition rt tr (console r) of
                      (True, c2) \<Rightarrow>
                        (case browserTemplate rt tr c2 of
                           Inl e \<Rightarrow> Inl e
                         | Inr (b, c4) \<Rightarrow>
                             Inr (pushTest (test3\<lparr> t_browser := Some b \<rparr>) (r\<lparr>console := c4\<rparr>)))
                    | (False, c2) \<Rightarrow> Inr (pushTest test3 (r\<lparr>console := c2\<rparr>)))
              else Inr (pushTest test r)))"

subsection \<open>updateSummaryFromTestResult\<close>

text \<open>The keys of the summary object; \<open>suites\<close> is one once it has been set.\<close>

definition summaryKeys :: "Summary \<Rightarrow> string list" where
  "summaryKeys s =
     [''tests'', ''passed'', ''failed'', ''pending'', ''skipped'', ''other'', ''start'', ''stop'']
     @ (case suites s of None \<Rightarrow> [] | Some n \<Rightarrow> [''suites''])"

text \<open>
  \<open>summary[k]++\<close>, which the code does for a key \<open>k\<close> of the summary only (behind
  \<open>k in summary\<close>).
\<close>

definition incrementProp :: "string \<Rightarrow> Summary \<Rightarrow> Summary" where
  "incrementProp k s =
     (if k = ''tests'' then s\<lparr>tests := tests s + 1\<rparr>
      else if k = ''passed'' then s\<lparr>passed := passed s + 1\<rparr>
      else if k = ''failed'' then s\<lparr>failed := failed s + 1\<rparr>
      else if k = ''pending'' then s\<lparr>pending := pending s + 1\<rparr>
      else if k = ''skipped'' then s\<lparr>skipped := skipped s + 1\<rparr>
      else if k = ''other'' then s\<lparr>other := other s + 1\<rparr>
      else if k = ''start'' then s\<lparr>start := start s + 1\<rparr>
      else if k = ''stop'' then s\<lparr>stop := stop s + 1\<rparr>
      else if k = ''suites'' then s\<lparr>suites := map_option (\<lambda>n. n + 1) (suites s)\<rparr>
      else s)"

definition updateSummaryFromTestResult ::
  "TestResult option \<Rightarrow> Reporter \<Rightarrow> thrown + Reporter" where
  "updateSummaryFromTestResult testResult r =
     (let s1 = (summary (ctrfReport r))\<lparr>tests := tests (summary (ctrfReport r)) + 1\<rparr>
      in case testResult of
           None \<Rightarrow> Inl undefinedRead
         | Some tr \<Rightarrow>
             (let ctrfStatus = mapPlaywrightStatusToCtrf (status tr)
              in Inr (r\<lparr>ctrfReport := (ctrfReport r)
                         \<lparr>summary :=
                            (if ctrfStatus \<in> set (summaryKeys s1)
                             then incrementProp ctrfStatus s1
                             else s1\<lparr>other := other s1 + 1\<rparr>)\<rparr>\<rparr>)))"

subsection \<open>processTest, processSuite\<close>

definition processTest :: "'n Runtime \<Rightarrow> TestCase \<Rightarrow> Reporter \<Rightarrow> thrown + Reporter" where
  "processTest rt testCase r =
     (let latestResult = at_index (results testCase) (int (length (results testCase)) - 1)
      in case updateCtrfTestResultsFromTestResult rt testCase latestResult r of
           Inl e \<Rightarrow> Inl e
         | Inr r1 \<Rightarrow> updateSummaryFromTestResult latestResult r1)"

text \<open>The loop over \<open>suite.tests\<close>.\<close>

fun processTests :: "'n Runtime \<Rightarrow> TestCase list \<Rightarrow> Reporter \<Rightarrow> thrown + Reporter" where
  "processTests rt [] r = Inr r"
| "processTests rt (test # ts) r =
     (case processTest rt test r of
        Inl e \<Rightarrow> Inl e
      | Inr r1 \<Rightarrow> processTests rt ts r1)"

text \<open>\<open>processSuite\<close>, and the loop over \<open>suite.suites\<close> in it.\<close>

fun processSuite :: "'n Runtime \<Rightarrow> Suite \<Rightarrow> Reporter \<Rightarrow> thrown + Reporter"
  and processSuites :: "'n Runtime \<Rightarrow> Suite list \<Rightarrow> Reporter \<Rightarrow> thrown + Reporter" where
  "processSuite rt (Suite ts ss) r =
     (case processTests rt ts r of
        Inl e \<Rightarrow> Inl e
      | Inr r1 \<Rightarrow> processSuites rt ss r1)"
| "processSuites rt [] r = Inr r"
| "processSuites rt (childSuite # ss) r =
     (case processSuite rt childSuite r of
        Inl e \<Rightarrow> Inl e
      | Inr r1 \<Rightarrow> processSuites rt ss r1)"

subsection \<open>countSuites\<close>

text \<open>\<open>forEach\<close> is the fold over \<open>suite.suites\<close>, \<open>count\<close> its accumulator.\<close>

fun countSuites :: "Suite \<Rightarrow> int" where
  "countSuites (Suite ts ss) =
     fold (\<lambda>childSuite count. count + countSuites childSuite) ss 0"

subsection \<open>writeReportToFile\<close>

text \<open>\<open>String(error)\<close>\<close>

definition thrownText :: "thrown \<Rightarrow> string" where
  "thrownText e =
     (case e of
        Error n m \<Rightarrow> (if n = [] then m else if m = [] then n else n @ '': '' @ m)
      | NonError x \<Rightarrow> x)"

definition writeReportToFile :: "'n Runtime \<Rightarrow> CtrfReport \<Rightarrow> Reporter \<Rightarrow> Reporter" where
  "writeReportToFile rt data r =
     (let dir = orElse (outputDir (reporterConfigOptions r)) defaultOutputDir;
          file = orElse (outputFile (reporterConfigOptions r)) defaultOutputFile
      in case writeFileSync rt dir file of
           None \<Rightarrow>
             r\<lparr> files := files r @ [(dir, file, data)],
                console := console r @
                  [ConsoleLog (reporterName @ '': successfully written ctrf json to '' @
                     (case outputFile (reporterConfigOptions r) of
                        None \<Rightarrow> ''undefined'' | Some f \<Rightarrow> f))] \<rparr>
         | Some e \<Rightarrow>
             r\<lparr> console := console r @
                  [ConsoleError (''Error writing ctrf json report:, '' @ thrownText e)] \<rparr>)"

subsection \<open>onBegin, onEnd\<close>

text \<open>\<open>now\<close> is what \<open>Date.now()\<close> returns in the call.\<close>

definition onBegin :: "'n Runtime \<Rightarrow> int \<Rightarrow> Suite \<Rightarrow> Reporter \<Rightarrow> thrown + Reporter" where
  "onBegin rt now s r =
     (let r1 = r\<lparr> suite := Some s, runStartTime := Some now,
                  ctrfReport := (ctrfReport r)
                    \<lparr>summary := (summary (ctrfReport r))\<lparr>start := now\<rparr>\<rparr> \<rparr>;
          dir = orElse (outputDir (reporterConfigOptions r1)) defaultOutputDir
      in case (if existsSync rt dir then None else mkdirSync rt dir) of
           Some e \<Rightarrow> Inl e
         | None \<Rightarrow>
             (let r2 = setEnvironmentDetails (reporterConfigOptions r1) r1;
                  r3 = (if hasEnvironmentDetails (ctrfEnvironment r2)
                        then r2\<lparr>ctrfReport := (ctrfReport r2)
                                  \<lparr>environment := Some (ctrfEnvironment r2)\<rparr>\<rparr>
                        else r2)
              in Inr (setFilename
                        (orElse (outputFile (reporterConfigOptions r3)) defaultOutputFile) r3)))"

definition onEnd :: "'n Runtime \<Rightarrow> int \<Rightarrow> Reporter \<Rightarrow> thrown + Reporter" where
  "onEnd rt now r =
     (let r1 = r\<lparr>ctrfReport := (ctrfReport r)
                  \<lparr>summary := (summary (ctrfReport r))\<lparr>stop := now\<rparr>\<rparr>\<rparr>
      in case suite r1 of
           None \<Rightarrow> Inr (writeReportToFile rt (ctrfReport r1) r1)
         | Some s \<Rightarrow>
             (case processSuite rt s r1 of
                Inl e \<Rightarrow> Inl e
              | Inr r2 \<Rightarrow>
                  (let r3 = r2\<lparr>ctrfReport := (ctrfReport r2)
                               \<lparr>summary := (summary (ctrfReport r2))
                                  \<lparr>suites := Some (countSuites s)\<rparr>\<rparr>\<rparr>
                   in Inr (writeReportToFile rt (ctrfReport r3) r3))))"

subsection \<open>Notions of the specification\<close>

text \<open>The five bucket counters add up to \<open>tests\<close>.\<close>

definition summaryBalanced :: "Summary \<Rightarrow> bool" where
  "summaryBalanced s = (tests s = passed s + failed s + pending s + skipped s + other s)"

text \<open>The test cases owned by the suites the traversal visits, in the order of the visit.\<close>

fun testsOf :: "Suite \<Rightarrow> TestCase list" where
  "testsOf (Suite ts ss) = ts @ concat (map testsOf ss)"

text \<open>The number of suites below a suite, at any depth.\<close>

fun nestedSuites :: "Suite \<Rightarrow> int" where
  "nestedSuites (Suite ts ss) = sum_list (map (\<lambda>childSuite. 1 + nestedSuites childSuite) ss)"

text \<open>The titles met on the way from a suite up to the root, the suite's own first.\<close>

fun ancestorTitles :: "ParentSuite \<Rightarrow> string list" where
  "ancestorTitles (ParentSuite ttl None) = [ttl]"
| "ancestorTitles (ParentSuite ttl (Some p)) = ttl # ancestorTitles p"

text \<open>
  The payload of the last attachment named \<open>screenshot\<close> whose content type is
  \<open>image/jpeg\<close> or \<open>image/png\<close>.
\<close>

definition lastScreenshot :: "TestResult \<Rightarrow> string option" where
  "lastScreenshot testResult =
     (case rev (filter (\<lambda>attachment.
                          name attachment = ''screenshot'' \<and>
                          (contentType attachment = ''image/jpeg'' \<or>
                           contentType attachment = ''image/png''))
                  (attachments testResult)) of
        [] \<Rightarrow> None
      | a # as \<Rightarrow> body a)"

subsection \<open>A run to evaluate\<close>

text \<open>
  A runtime for the examples: its \<open>JSON_parse\<close> gives what JSON.parse gives on the
  bodies used below (two objects, and a SyntaxError for a body that is no JSON), its file
  system accepts every call, and nothing below reads its \<open>toBase64\<close> or \<open>ToString\<close>.
  Then a suite tree of three test cases: the root holds suite \<open>A\<close> with one test case, \<open>A\<close>
  holds an untitled suite, and that one holds suite \<open>B\<close> with two test cases.
\<close>

definition demoRuntime :: "nat Runtime" where
  \<open>demoRuntime =
     \<lparr> JSON_parse = (\<lambda>b.
         if b = ''{"name":"chromium","version":"120.0"}''
           then Inr (JObj [(''name'', JStr ''chromium''), (''version'', JStr ''120.0'')])
         else if b = ''{"name":"chromium"}''
           then Inr (JObj [(''name'', JStr ''chromium'')])
         else Inl (Error ''SyntaxError'' ''Unexpected token'')),
       toBase64 = (\<lambda>b. b),
       ToString = (\<lambda>v. Inr ''[object Object]''),
       existsSync = (\<lambda>d. True),
       mkdirSync = (\<lambda>d. None),
       writeFileSync = (\<lambda>d f. None) \<rparr>\<close>

definition demoResult :: "string \<Rightarrow> TestError option \<Rightarrow> Attachment list \<Rightarrow> TestResult" where
  "demoResult st err atts =
     \<lparr> status = st, duration = 1500, startTime = 1700000000123, retry = 0,
       attachments = atts, error = err \<rparr>"

text \<open>
  The suites as a test case sees them: \<open>A\<close> below the untitled root, and \<open>B\<close> below an
  untitled suite below \<open>A\<close>.
\<close>

definition suiteA :: ParentSuite where
  "suiteA = ParentSuite ''A'' (Some (ParentSuite [] None))"

definition demoParent :: ParentSuite where
  "demoParent = ParentSuite ''B'' (Some (ParentSuite [] (Some suiteA)))"

text \<open>A test case of suite \<open>B\<close>.\<close>

definition demoTest :: "string \<Rightarrow> TestResult list \<Rightarrow> TestCase" where
  "demoTest ttl rs =
     \<lparr> title = ttl, location_file = ''tests/login.spec.ts'', results = rs,
       parent = demoParent \<rparr>"

definition demoSuite :: Suite where
  "demoSuite =
     Suite []
       [Suite [(demoTest ''opens @smoke'' [demoResult ''passed'' None []])\<lparr>parent := suiteA\<rparr>]
          [Suite []
             [Suite [demoTest ''logs in'' [demoResult ''failed'' None [],
                                           demoResult ''passed'' None []],
                     demoTest ''logs out''
                       [demoResult ''failed''
                          (Some \<lparr> message = Some ''expected true, got false'',
                                   stack = Some ''at logout.spec.ts:3'' \<rparr>) []]]
                []]]]"

text \<open>The run: the reporter is constructed with no options, then \<open>onBegin\<close>, then \<open>onEnd\<close>.\<close>

definition demoEnd :: "thrown + Reporter" where
  "demoEnd =
     (case onBegin demoRuntime 1000 demoSuite (constructor None) of
        Inl e \<Rightarrow> Inl e
      | Inr r1 \<Rightarrow> onEnd demoRuntime 2000 r1)"

text \<open>
  Attempts with a \<open>metadata.json\<close> attachment: one with a name and a version, one with a
  name only, one whose body does not parse.
\<close>

definition fullMetadata :: TestResult where
  \<open>fullMetadata =
     demoResult ''passed'' None
       [\<lparr> name = ''metadata.json'', contentType = ''application/json'',
          body = Some ''{"name":"chromium","version":"120.0"}'' \<rparr>]\<close>

definition nameOnlyMetadata :: TestResult where
  \<open>nameOnlyMetadata =
     demoResult ''passed'' None
       [\<lparr> name = ''metadata.json'', contentType = ''application/json'',
          body = Some ''{"name":"chromium"}'' \<rparr>]\<close>

definition brokenMetadata :: TestResult where
  "brokenMetadata =
     demoResult ''passed'' None
       [\<lparr> name = ''metadata.json'', contentType = ''application/json'',
          body = Some ''{name:'' \<rparr>]"

section \<open>Properties\<close>

subsection \<open>Status mapping\<close>

text \<open>
  C6. The normalized status is a function of the host's status string alone: \<open>passed\<close>
  gives \<open>passed\<close>; \<open>failed\<close>, \<open>timedOut\<close> and \<open>interrupted\<close> give \<open>failed\<close>; \<open>skipped\<close>
  gives \<open>skipped\<close>; \<open>pending\<close> gives \<open>pending\<close>; every other string gives \<open>other\<close>.
\<close>

theorem mapPlaywrightStatusToCtrf_table:
  "mapPlaywrightStatusToCtrf ''passed'' = ''passed'' \<and>
   mapPlaywrightStatusToCtrf ''failed'' = ''failed'' \<and>
   mapPlaywrightStatusToCtrf ''timedOut'' = ''failed'' \<and>
   mapPlaywrightStatusToCtrf ''interrupted'' = ''failed'' \<and>
   mapPlaywrightStatusToCtrf ''skipped'' = ''skipped'' \<and>
   mapPlaywrightStatusToCtrf ''pending'' = ''pending'' \<and>
   (s \<notin> {''passed'', ''failed'', ''timedOut'', ''interrupted'', ''skipped'', ''pending''}
      \<longrightarrow> mapPlaywrightStatusToCtrf s = ''other'')"
  by (simp add: mapPlaywrightStatusToCtrf_def)

theorem mapPlaywrightStatusToCtrf_table_witness:
  "''flaky'' \<notin> {''passed'', ''failed'', ''timedOut'', ''interrupted'', ''skipped'', ''pending''} \<and>
   mapPlaywrightStatusToCtrf ''flaky'' = ''other''"
proof (rule conjI)
  show h: "''flaky'' \<notin> {''passed'', ''failed'', ''timedOut'', ''interrupted'', ''skipped'', ''pending''}"
    by simp
  from mapPlaywrightStatusToCtrf_table [of "''flaky''"]
  have "''flaky'' \<notin> {''passed'', ''failed'', ''timedOut'', ''interrupted'', ''skipped'', ''pending''}
      \<longrightarrow> mapPlaywrightStatusToCtrf ''flaky'' = ''other''"
    by (elim conjE)
  with h show "mapPlaywrightStatusToCtrf ''flaky'' = ''other''" by (rule mp [rotated])
qed

subsection \<open>Output file name\<close>

lemma endsWith_append_self: "endsWith (f @ suf) suf"
  by (simp add: endsWith_def)

text \<open>
  C8. \<open>setFilename\<close> stores the name with \<open>.json\<close> appended when it does not end in
  \<open>.json\<close>, and the name itself when it does. The stored name ends in \<open>.json\<close>, storing it
  again changes nothing, \<open>custom\<close> becomes \<open>custom.json\<close> and \<open>custom.json\<close> stays.
\<close>

theorem setFilename_normalizes:
  "outputFile (reporterConfigOptions (setFilename f r)) =
     Some (if endsWith f ''.json'' then f else f @ ''.json'') \<and>
   endsWith (if endsWith f ''.json'' then f else f @ ''.json'') ''.json'' \<and>
   setFilename (if endsWith f ''.json'' then f else f @ ''.json'') (setFilename f r) =
     setFilename f r \<and>
   outputFile (reporterConfigOptions (setFilename ''custom'' r)) = Some ''custom.json'' \<and>
   outputFile (reporterConfigOptions (setFilename ''custom.json'' r)) = Some ''custom.json''"
  by (simp add: setFilename_def endsWith_append_self) (simp add: endsWith_def)

subsection \<open>Suite path\<close>

lemma buildSuitePath_loop_titles:
  "buildSuitePath_loop (Some p) acc = rev (filter (\<lambda>t. t \<noteq> []) (ancestorTitles p)) @ acc"
  by (induction p arbitrary: acc rule: ancestorTitles.induct) simp_all

text \<open>
  C7. The suite path of a test case is the titles met from its parent suite up to the
  root, without the empty ones, joined from the outermost to the innermost with \<open>" > "\<close>.
  A test under the suites \<open>A\<close>, \<open>""\<close>, \<open>B\<close> (with or without an untitled root above \<open>A\<close>) has
  the path \<open>A > B\<close>.
\<close>

theorem buildSuitePath_joins_titles:
  "buildSuitePath test =
     join '' > '' (rev (filter (\<lambda>t. t \<noteq> []) (ancestorTitles (parent test)))) \<and>
   buildSuitePath
     (test\<lparr>parent := ParentSuite ''B'' (Some (ParentSuite [] (Some (ParentSuite ''A'' None))))\<rparr>)
     = ''A > B'' \<and>
   buildSuitePath (demoTest ttl rs) = ''A > B''"
  by (simp add: buildSuitePath_def buildSuitePath_loop_titles demoTest_def demoParent_def
      suiteA_def)

subsection \<open>Suite count\<close>

lemma fold_add_zero:
  "(\<And>x. x \<in> set xs \<Longrightarrow> f x = (0::int)) \<Longrightarrow> fold (\<lambda>x count. count + f x) xs c = c"
  by (induction xs arbitrary: c) simp_all

lemma countSuites_zero: "countSuites s = 0"
  by (induction s rule: countSuites.induct) (simp add: fold_add_zero)

text \<open>
  C1 (not what the code does). \<open>countSuites\<close> adds up the counts of the child suites and
  never counts a suite itself: for a root with one child suite it returns 0, where the
  number of nested suites is 1, and the run above, with three nested suites, records 0.
\<close>

theorem countSuites_one_child:
  "countSuites (Suite [] [Suite [] []]) = 0 \<and> nestedSuites (Suite [] [Suite [] []]) = 1 \<and>
   nestedSuites demoSuite = 3 \<and>
   \<not> isl demoEnd \<and> suites (summary (ctrfReport (projr demoEnd))) = Some 0"
  by code_simp

subsection \<open>Summary counters\<close>

lemma mapPlaywrightStatusToCtrf_cases:
  "mapPlaywrightStatusToCtrf s \<in> {''passed'', ''failed'', ''skipped'', ''pending'', ''other''}"
  by (simp add: mapPlaywrightStatusToCtrf_def)

lemma pushTest_summary [simp]: "summary (ctrfReport (pushTest t r)) = summary (ctrfReport r)"
  by (simp add: pushTest_def)

lemma updateCtrf_summary:
  "updateCtrfTestResultsFromTestResult rt tc tr r = Inr r' \<Longrightarrow>
   summary (ctrfReport r') = summary (ctrfReport r)"
  by (auto simp: updateCtrfTestResultsFromTestResult_def Let_def
           split: option.splits if_splits prod.splits sum.splits bool.splits)

lemma updateSummary_balanced:
  assumes "updateSummaryFromTestResult tr r = Inr r'"
    and "summaryBalanced (summary (ctrfReport r))"
  shows "summaryBalanced (summary (ctrfReport r'))"
proof -
  obtain t where t: "tr = Some t"
    using assms(1) by (cases tr) (simp_all add: updateSummaryFromTestResult_def)
  have "mapPlaywrightStatusToCtrf (status t) \<in> {''passed'', ''failed'', ''skipped'', ''pending'', ''other''}"
    by (rule mapPlaywrightStatusToCtrf_cases)
  then show ?thesis
    using assms unfolding t
    by (auto simp: updateSummaryFromTestResult_def Let_def summaryKeys_def incrementProp_def
        summaryBalanced_def)
qed

lemma processTest_balanced:
  "processTest rt tc r = Inr r' \<Longrightarrow> summaryBalanced (summary (ctrfReport r)) \<Longrightarrow>
   summaryBalanced (summary (ctrfReport r'))"
  by (auto simp: processTest_def Let_def split: sum.splits
           dest!: updateCtrf_summary intro: updateSummary_balanced)

lemma processTests_balanced:
  "processTests rt ts r = Inr r' \<Longrightarrow> summaryBalanced (summary (ctrfReport r)) \<Longrightarrow>
   summaryBalanced (summary (ctrfReport r'))"
proof (induction ts arbitrary: r)
  case Nil
  then show ?case by simp
next
  case (Cons t ts)
  then show ?case
    by (auto split: sum.splits dest: processTest_balanced)
qed

lemma processSuite_balanced:
  "processSuite rt s r = Inr r' \<Longrightarrow> summaryBalanced (summary (ctrfReport r)) \<Longrightarrow>
   summaryBalanced (summary (ctrfReport r'))"
  "processSuites rt ss r = Inr r' \<Longrightarrow> summaryBalanced (summary (ctrfReport r)) \<Longrightarrow>
   summaryBalanced (summary (ctrfReport r'))"
proof (induction rt s r and rt ss r arbitrary: r' and r' rule: processSuite_processSuites.induct)
  case (1 rt ts ss r)
  then show ?case
    by (auto split: sum.splits dest: processTests_balanced)
next
  case (2 rt r)
  then show ?case by simp
next
  case (3 rt childSuite ss r)
  then show ?case
    by (auto split: sum.splits)
qed

lemma onBegin_summary:
  "onBegin rt t0 s r = Inr r' \<Longrightarrow>
   summaryBalanced (summary (ctrfReport r')) = summaryBalanced (summary (ctrfReport r))"
  by (auto simp: onBegin_def Let_def setFilename_def setEnvironmentDetails_def summaryBalanced_def
           split: option.splits if_splits)

lemma writeReportToFile_report [simp]:
  "ctrfReport (writeReportToFile rt d r) = ctrfReport r"
  by (simp add: writeReportToFile_def Let_def split: option.splits)

lemma onEnd_balanced:
  "onEnd rt t1 r = Inr r' \<Longrightarrow> summaryBalanced (summary (ctrfReport r)) \<Longrightarrow>
   summaryBalanced (summary (ctrfReport r'))"
proof -
  assume e: "onEnd rt t1 r = Inr r'" and b: "summaryBalanced (summary (ctrfReport r))"
  let ?r1 = "r\<lparr>ctrfReport := (ctrfReport r)\<lparr>summary := (summary (ctrfReport r))\<lparr>stop := t1\<rparr>\<rparr>\<rparr>"
  have b1: "summaryBalanced (summary (ctrfReport ?r1))"
    using b by (simp add: summaryBalanced_def)
  show ?thesis
  proof (cases "suite r")
    case None
    with e b show ?thesis
      by (auto simp: onEnd_def Let_def summaryBalanced_def)
  next
    case (Some s)
    with e obtain r2 where p: "processSuite rt s ?r1 = Inr r2"
      and r': "ctrfReport r' =
                 (ctrfReport r2)\<lparr>summary := (summary (ctrfReport r2))\<lparr>suites := Some (countSuites s)\<rparr>\<rparr>"
      by (auto simp: onEnd_def Let_def split: sum.splits)
    from processSuite_balanced(1) [OF p b1] show ?thesis
      unfolding r' by (simp add: summaryBalanced_def)
  qed
qed

lemma constructor_balanced: "summaryBalanced (summary (ctrfReport (constructor config)))"
  by (simp add: constructor_def summaryBalanced_def)

text \<open>
  C2. After a run (the reporter is constructed, \<open>onBegin\<close> and \<open>onEnd\<close> return), the
  counter \<open>tests\<close> of the summary is the sum of \<open>passed\<close>, \<open>failed\<close>, \<open>pending\<close>, \<open>skipped\<close>
  and \<open>other\<close>.
\<close>

theorem summary_tests_is_bucket_sum:
  assumes "onBegin rt t0 s (constructor config) = Inr r1"
    and "onEnd rt t1 r1 = Inr r2"
  shows "tests (summary (ctrfReport r2)) =
         passed (summary (ctrfReport r2)) + failed (summary (ctrfReport r2)) +
         pending (summary (ctrfReport r2)) + skipped (summary (ctrfReport r2)) +
         other (summary (ctrfReport r2))"
proof -
  from onBegin_summary [OF assms(1)] constructor_balanced
  have "summaryBalanced (summary (ctrfReport r1))" by simp
  from onEnd_balanced [OF assms(2) this] show ?thesis
    by (simp add: summaryBalanced_def)
qed

text \<open>
  The run of the three test cases above: two pass, one fails with a message, and the
  suite counter stays 0.
\<close>

lemma demo_run:
  "\<not> isl demoEnd \<and>
   tests (summary (ctrfReport (projr demoEnd))) = 3 \<and>
   passed (summary (ctrfReport (projr demoEnd))) = 2 \<and>
   failed (summary (ctrfReport (projr demoEnd))) = 1 \<and>
   suites (summary (ctrfReport (projr demoEnd))) = Some 0 \<and>
   map t_message (report_tests (ctrfReport (projr demoEnd))) =
     [None, None, Some ''expected true, got false''] \<and>
   map t_retry (report_tests (ctrfReport (projr demoEnd))) = [Some 0, Some 0, Some 0] \<and>
   map t_suite (report_tests (ctrfReport (projr demoEnd))) =
     [Some ''A'', Some ''A > B'', Some ''A > B''] \<and>
   map t_tags (report_tests (ctrfReport (projr demoEnd))) = [Some [''@smoke''], Some [], Some []]"
  by code_simp

theorem summary_tests_is_bucket_sum_witness:
  "\<exists>r1 r2. onBegin demoRuntime 1000 demoSuite (constructor None) = Inr r1 \<and>
     onEnd demoRuntime 2000 r1 = Inr r2 \<and>
     tests (summary (ctrfReport r2)) =
       passed (summary (ctrfReport r2)) + failed (summary (ctrfReport r2)) +
       pending (summary (ctrfReport r2)) + skipped (summary (ctrfReport r2)) +
       other (summary (ctrfReport r2))"
proof -
  from demo_run have "\<not> isl demoEnd" by simp
  then obtain r1 r2
    where b: "onBegin demoRuntime 1000 demoSuite (constructor None) = Inr r1"
      and e: "onEnd demoRuntime 2000 r1 = Inr r2"
    by (cases "onBegin demoRuntime 1000 demoSuite (constructor None)";
        cases "onEnd demoRuntime 2000 (projr (onBegin demoRuntime 1000 demoSuite (constructor None)))")
       (simp_all add: demoEnd_def)
  from summary_tests_is_bucket_sum [OF b e] b e show ?thesis by blast
qed

subsection \<open>Screenshot and failure details\<close>

text \<open>
  C3 (not what the code does). \<open>find\<close> returns the first matching attachment: of two
  screenshots the first one is encoded, not the last.
\<close>

theorem extractScreenshotBase64_two_screenshots:
  "extractScreenshotBase64 rt
     (demoResult ''passed'' None
        [\<lparr> name = ''screenshot'', contentType = ''image/png'', body = Some ''first'' \<rparr>,
         \<lparr> name = ''screenshot'', contentType = ''image/jpeg'', body = Some ''last'' \<rparr>])
     = Some (toBase64 rt ''first'') \<and>
   lastScreenshot
     (demoResult ''passed'' None
        [\<lparr> name = ''screenshot'', contentType = ''image/png'', body = Some ''first'' \<rparr>,
         \<lparr> name = ''screenshot'', contentType = ''image/jpeg'', body = Some ''last'' \<rparr>])
     = Some ''last''"
  by (simp add: extractScreenshotBase64_def lastScreenshot_def demoResult_def)

text \<open>
  C4 (not what the code does). \<open>extractFailureDetails\<close> compares the host's status with
  \<open>failed\<close> only: an attempt that timed out is reported as \<open>failed\<close>, and its error's
  message and stack are left out.
\<close>

theorem extractFailureDetails_timedOut:
  "mapPlaywrightStatusToCtrf ''timedOut'' = ''failed'' \<and>
   extractFailureDetails
     (demoResult ''timedOut''
        (Some \<lparr> message = Some ''Test timeout of 30000ms exceeded.'',
                 stack = Some ''at login.spec.ts:7'' \<rparr>) [])
     = \<lparr> fd_message = None, fd_trace = None \<rparr> \<and>
   \<not> isl (updateCtrfTestResultsFromTestResult demoRuntime (demoTest ''logs in'' [])
            (Some (demoResult ''timedOut''
               (Some \<lparr> message = Some ''Test timeout of 30000ms exceeded.'',
                        stack = Some ''at login.spec.ts:7'' \<rparr>) []))
            (constructor None)) \<and>
   map (\<lambda>t. (t_status t, t_message t, t_trace t))
     (report_tests (ctrfReport (projr
        (updateCtrfTestResultsFromTestResult demoRuntime (demoTest ''logs in'' [])
            (Some (demoResult ''timedOut''
               (Some \<lparr> message = Some ''Test timeout of 30000ms exceeded.'',
                        stack = Some ''at login.spec.ts:7'' \<rparr>) []))
            (constructor None)))))
     = [(''failed'', None, None)]"
  by code_simp

subsection \<open>Browser metadata\<close>

lemma extractMetadata_value:
  "fst (extractMetadata rt tr c) = fst (extractMetadata rt tr c')"
  by (simp add: extractMetadata_def split: option.splits sum.splits thrown.splits)

lemma browserCondition_value:
  "fst (browserCondition rt tr c) =
     (optProp (fst (extractMetadata rt tr c)) ''name'' \<noteq> None \<or>
      optProp (fst (extractMetadata rt tr c)) ''version'' \<noteq> None)"
proof -
  obtain m1 c1 where e1: "extractMetadata rt tr c = (m1, c1)"
    by (cases "extractMetadata rt tr c")
  obtain m2 c2 where e2: "extractMetadata rt tr c1 = (m2, c2)"
    by (cases "extractMetadata rt tr c1")
  from extractMetadata_value [of rt tr c c1] e1 e2 have "m2 = m1" by simp
  with e1 e2 show ?thesis by (simp add: browserCondition_def)
qed

lemma browserTemplate_value:
  assumes "templateText rt (optProp (fst (extractMetadata rt tr c)) ''name'') = Inr sn"
    and "templateText rt (optProp (fst (extractMetadata rt tr c)) ''version'') = Inr sv"
  shows "\<exists>c'. browserTemplate rt tr c = Inr (sn @ '' '' @ sv, c')"
proof -
  obtain m3 c3 where e3: "extractMetadata rt tr c = (m3, c3)"
    by (cases "extractMetadata rt tr c")
  obtain m4 c4 where e4: "extractMetadata rt tr c3 = (m4, c4)"
    by (cases "extractMetadata rt tr c3")
  from extractMetadata_value [of rt tr c c3] e3 e4 have "m4 = m3" by simp
  with e3 e4 assms show ?thesis by (simp add: browserTemplate_def)
qed

lemma updateCtrf_without_browser:
  assumes "\<not> fst (browserCondition rt tr (console r))"
  shows "\<exists>r'. updateCtrfTestResultsFromTestResult rt tc (Some tr) r = Inr r' \<and>
           map t_browser (report_tests (ctrfReport r')) =
             map t_browser (report_tests (ctrfReport r)) @ [None]"
proof -
  obtain c2 where "browserCondition rt tr (console r) = (False, c2)"
    using assms by (cases "browserCondition rt tr (console r)") simp
  then show ?thesis
    by (simp add: updateCtrfTestResultsFromTestResult_def Let_def pushTest_def)
qed

lemma updateCtrf_with_browser:
  assumes "minimal (reporterConfigOptions r) = Some False"
    and "fst (browserCondition rt tr (console r))"
    and "\<And>c. \<exists>c'. browserTemplate rt tr c = Inr (b, c')"
  shows "\<exists>r'. updateCtrfTestResultsFromTestResult rt tc (Some tr) r = Inr r' \<and>
           map t_browser (report_tests (ctrfReport r')) =
             map t_browser (report_tests (ctrfReport r)) @ [Some b]"
proof -
  obtain c2 where c2: "browserCondition rt tr (console r) = (True, c2)"
    using assms(2) by (cases "browserCondition rt tr (console r)") simp
  from assms(3) obtain c4 where "browserTemplate rt tr c2 = Inr (b, c4)" by blast
  with c2 assms(1) show ?thesis
    by (simp add: updateCtrfTestResultsFromTestResult_def Let_def pushTest_def)
qed

lemma updateSummary_returns:
  "\<exists>r'. updateSummaryFromTestResult (Some tr) r = Inr r'"
  by (simp add: updateSummaryFromTestResult_def Let_def)

lemma latestResult_snoc:
  "at_index (rs @ [tr]) (int (length (rs @ [tr])) - 1) = Some tr"
  by (simp add: at_index_def nth_append)

text \<open>
  C9. When the body of the attempt's \<open>metadata.json\<close> attachment does not parse,
  \<open>extractMetadata\<close> returns \<open>null\<close> and writes one line to the error console; the test
  record is added without a browser, and processing the test case returns normally.
\<close>

theorem metadata_parse_failure_is_caught:
  assumes "find (\<lambda>a. name a = ''metadata.json'') (attachments tr) = Some a"
    and "body a = Some b"
    and "JSON_parse rt b = Inl e"
  shows "extractMetadata rt tr con =
           (JNull,
            con @ [ConsoleError
                     (case e of
                        Error n m \<Rightarrow> ''Error parsing browser metadata: '' @ m
                      | NonError x \<Rightarrow> ''An unknown error occurred in parsing browser metadata'')]) \<and>
         (\<exists>r'. updateCtrfTestResultsFromTestResult rt tc (Some tr) r = Inr r' \<and>
            map t_browser (report_tests (ctrfReport r')) =
              map t_browser (report_tests (ctrfReport r)) @ [None]) \<and>
         (\<exists>r'. processTest rt (tc\<lparr>results := rs @ [tr]\<rparr>) r = Inr r')"
proof -
  have m: "extractMetadata rt tr c =
           (JNull,
            c @ [ConsoleError
                   (case e of
                      Error n m \<Rightarrow> ''Error parsing browser metadata: '' @ m
                    | NonError x \<Rightarrow> ''An unknown error occurred in parsing browser metadata'')])"
    for c
    using assms by (cases e) (simp_all add: extractMetadata_def)
  then have "fst (extractMetadata rt tr (console r)) = JNull"
    by simp
  then have nb: "\<not> fst (browserCondition rt tr (console r))"
    by (simp add: browserCondition_value)
  from updateCtrf_without_browser [OF nb]
  have u: "\<exists>r'. updateCtrfTestResultsFromTestResult rt tc' (Some tr) r = Inr r' \<and>
            map t_browser (report_tests (ctrfReport r')) =
              map t_browser (report_tests (ctrfReport r)) @ [None]" for tc'
    .
  from u [of "tc\<lparr>results := rs @ [tr]\<rparr>"] obtain r1
    where "updateCtrfTestResultsFromTestResult rt (tc\<lparr>results := rs @ [tr]\<rparr>) (Some tr) r = Inr r1"
    by blast
  moreover from updateSummary_returns obtain r2
    where "updateSummaryFromTestResult (Some tr) r1 = Inr r2" by blast
  ultimately have "processTest rt (tc\<lparr>results := rs @ [tr]\<rparr>) r = Inr r2"
    using latestResult_snoc [of rs tr] by (simp add: processTest_def)
  with m u show ?thesis by blast
qed

theorem metadata_parse_failure_is_caught_witness:
  "find (\<lambda>a. name a = ''metadata.json'') (attachments brokenMetadata) =
     Some \<lparr> name = ''metadata.json'', contentType = ''application/json'',
            body = Some ''{name:'' \<rparr> \<and>
   JSON_parse demoRuntime ''{name:'' = Inl (Error ''SyntaxError'' ''Unexpected token'') \<and>
   extractMetadata demoRuntime brokenMetadata [] =
     (JNull, [ConsoleError ''Error parsing browser metadata: Unexpected token'']) \<and>
   (\<exists>r'. updateCtrfTestResultsFromTestResult demoRuntime (demoTest ''opens'' [])
            (Some brokenMetadata) (constructor None) = Inr r' \<and>
      map t_browser (report_tests (ctrfReport r')) =
        map t_browser (report_tests (ctrfReport (constructor None))) @ [None]) \<and>
   (\<exists>r'. processTest demoRuntime ((demoTest ''opens'' [])\<lparr>results := [] @ [brokenMetadata]\<rparr>)
            (constructor None) = Inr r')"
proof -
  have f: "find (\<lambda>a. name a = ''metadata.json'') (attachments brokenMetadata) =
     Some \<lparr> name = ''metadata.json'', contentType = ''application/json'',
            body = Some ''{name:'' \<rparr>"
    by (simp add: brokenMetadata_def demoResult_def)
  have b: "body \<lparr> name = ''metadata.json'', contentType = ''application/json'',
            body = Some ''{name:'' \<rparr> = Some ''{name:''"
    by simp
  have p: "JSON_parse demoRuntime ''{name:'' = Inl (Error ''SyntaxError'' ''Unexpected token'')"
    by (simp add: demoRuntime_def)
  from metadata_parse_failure_is_caught [OF f b p, of "[]" "demoTest ''opens'' []"
      "constructor None" "[]"] f p
  show ?thesis by simp
qed

text \<open>
  C5 as stated fails: a body that parses to an object with a \<open>name\<close> and no \<open>version\<close>
  gives the browser \<open>chromium undefined\<close>.
\<close>

theorem browser_with_name_only:
  "optProp (fst (extractMetadata demoRuntime nameOnlyMetadata [])) ''version'' = None \<and>
   \<not> isl (updateCtrfTestResultsFromTestResult demoRuntime (demoTest ''opens'' [])
            (Some nameOnlyMetadata) (constructor None)) \<and>
   map t_browser (report_tests (ctrfReport (projr
     (updateCtrfTestResultsFromTestResult demoRuntime (demoTest ''opens'' [])
        (Some nameOnlyMetadata) (constructor None)))))
     = [Some ''chromium undefined'']"
  by code_simp

text \<open>
  C5, amended. In non-minimal mode, with \<open>m\<close> the value \<open>extractMetadata\<close> returns for the
  attempt: when \<open>m\<close> has a \<open>name\<close> and a \<open>version\<close>, both not \<open>null\<close>, the browser of the test
  record is the text of the name, a space and the text of the version (for two strings:
  the strings themselves); when \<open>m\<close> has neither a \<open>name\<close> nor a \<open>version\<close>, the test
  record has no browser.
\<close>

theorem browser_from_metadata:
  assumes "minimal (reporterConfigOptions r) = Some False"
  shows "(optProp (fst (extractMetadata rt tr (console r))) ''name'' = Some n \<and>
          optProp (fst (extractMetadata rt tr (console r))) ''version'' = Some v \<and>
          n \<noteq> JNull \<and> v \<noteq> JNull \<and>
          templateText rt (Some n) = Inr sn \<and> templateText rt (Some v) = Inr sv \<longrightarrow>
          (\<exists>r'. updateCtrfTestResultsFromTestResult rt tc (Some tr) r = Inr r' \<and>
             map t_browser (report_tests (ctrfReport r')) =
               map t_browser (report_tests (ctrfReport r)) @ [Some (sn @ '' '' @ sv)])) \<and>
         (optProp (fst (extractMetadata rt tr (console r))) ''name'' = Some (JStr a) \<and>
          optProp (fst (extractMetadata rt tr (console r))) ''version'' = Some (JStr b) \<longrightarrow>
          (\<exists>r'. updateCtrfTestResultsFromTestResult rt tc (Some tr) r = Inr r' \<and>
             map t_browser (report_tests (ctrfReport r')) =
               map t_browser (report_tests (ctrfReport r)) @ [Some (a @ '' '' @ b)])) \<and>
         (optProp (fst (extractMetadata rt tr (console r))) ''name'' = None \<and>
          optProp (fst (extractMetadata rt tr (console r))) ''version'' = None \<longrightarrow>
          (\<exists>r'. updateCtrfTestResultsFromTestResult rt tc (Some tr) r = Inr r' \<and>
             map t_browser (report_tests (ctrfReport r')) =
               map t_browser (report_tests (ctrfReport r)) @ [None]))"
proof -
  have both: "\<exists>r'. updateCtrfTestResultsFromTestResult rt tc (Some tr) r = Inr r' \<and>
             map t_browser (report_tests (ctrfReport r')) =
               map t_browser (report_tests (ctrfReport r)) @ [Some (x @ '' '' @ y)]"
    if n: "optProp (fst (extractMetadata rt tr (console r))) ''name'' = Some p"
      and v: "optProp (fst (extractMetadata rt tr (console r))) ''version'' = Some q"
      and tn: "templateText rt (Some p) = Inr x"
      and tv: "templateText rt (Some q) = Inr y"
    for p q x y
  proof -
    from n have c: "fst (browserCondition rt tr (console r))"
      by (simp add: browserCondition_value)
    have "\<exists>c'. browserTemplate rt tr c = Inr (x @ '' '' @ y, c')" for c
    proof (rule browserTemplate_value)
      show "templateText rt (optProp (fst (extractMetadata rt tr c)) ''name'') = Inr x"
        using n tn extractMetadata_value [of rt tr c "console r"] by simp
      show "templateText rt (optProp (fst (extractMetadata rt tr c)) ''version'') = Inr y"
        using v tv extractMetadata_value [of rt tr c "console r"] by simp
    qed
    from updateCtrf_with_browser [OF assms c this] show ?thesis .
  qed
  have neither: "\<exists>r'. updateCtrfTestResultsFromTestResult rt tc (Some tr) r = Inr r' \<and>
             map t_browser (report_tests (ctrfReport r')) =
               map t_browser (report_tests (ctrfReport r)) @ [None]"
    if "optProp (fst (extractMetadata rt tr (console r))) ''name'' = None"
      and "optProp (fst (extractMetadata rt tr (console r))) ''version'' = None"
  proof -
    from that have "\<not> fst (browserCondition rt tr (console r))"
      by (simp add: browserCondition_value)
    from updateCtrf_without_browser [OF this] show ?thesis .
  qed
  have strings: "templateText rt (Some (JStr a)) = Inr a" "templateText rt (Some (JStr b)) = Inr b"
    by (simp_all add: templateText_def)
  show ?thesis
  proof (intro conjI impI)
    assume "optProp (fst (extractMetadata rt tr (console r))) ''name'' = Some n \<and>
          optProp (fst (extractMetadata rt tr (console r))) ''version'' = Some v \<and>
          n \<noteq> JNull \<and> v \<noteq> JNull \<and>
          templateText rt (Some n) = Inr sn \<and> templateText rt (Some v) = Inr sv"
    then show "\<exists>r'. updateCtrfTestResultsFromTestResult rt tc (Some tr) r = Inr r' \<and>
             map t_browser (report_tests (ctrfReport r')) =
               map t_browser (report_tests (ctrfReport r)) @ [Some (sn @ '' '' @ sv)]"
      using both [of n v sn sv] by blast
  next
    assume "optProp (fst (extractMetadata rt tr (console r))) ''name'' = Some (JStr a) \<and>
          optProp (fst (extractMetadata rt tr (console r))) ''version'' = Some (JStr b)"
    then show "\<exists>r'. updateCtrfTestResultsFromTestResult rt tc (Some tr) r = Inr r' \<and>
             map t_browser (report_tests (ctrfReport r')) =
               map t_browser (report_tests (ctrfReport r)) @ [Some (a @ '' '' @ b)]"
      using both [of "JStr a" "JStr b" a b] strings by blast
  next
    assume "optProp (fst (extractMetadata rt tr (console r))) ''name'' = None \<and>
          optProp (fst (extractMetadata rt tr (console r))) ''version'' = None"
    then show "\<exists>r'. updateCtrfTestResultsFromTestResult rt tc (Some tr) r = Inr r' \<and>
             map t_browser (report_tests (ctrfReport r')) =
               map t_browser (report_tests (ctrfReport r)) @ [None]"
      using neither by blast
  qed
qed

theorem browser_from_metadata_witness:
  "minimal (reporterConfigOptions (constructor None)) = Some False \<and>
   optProp (fst (extractMetadata demoRuntime fullMetadata (console (constructor None)))) ''name''
     = Some (JStr ''chromium'') \<and>
   optProp (fst (extractMetadata demoRuntime fullMetadata (console (constructor None)))) ''version''
     = Some (JStr ''120.0'') \<and>
   JStr ''chromium'' \<noteq> (JNull :: nat json) \<and> JStr ''120.0'' \<noteq> (JNull :: nat json) \<and>
   templateText demoRuntime (Some (JStr ''chromium'')) = Inr ''chromium'' \<and>
   templateText demoRuntime (Some (JStr ''120.0'')) = Inr ''120.0'' \<and>
   (\<exists>r'. updateCtrfTestResultsFromTestResult demoRuntime (demoTest ''opens'' [])
            (Some fullMetadata) (constructor None) = Inr r' \<and>
      map t_browser (report_tests (ctrfReport r')) =
        map t_browser (report_tests (ctrfReport (constructor None))) @ [Some ''chromium 120.0'']) \<and>
   optProp (fst (extractMetadata demoRuntime (demoResult ''passed'' None [])
                   (console (constructor None)))) ''name'' = None \<and>
   optProp (fst (extractMetadata demoRuntime (demoResult ''passed'' None [])
                   (console (constructor None)))) ''version'' = None \<and>
   (\<exists>r'. updateCtrfTestResultsFromTestResult demoRuntime (demoTest ''opens'' [])
            (Some (demoResult ''passed'' None [])) (constructor None) = Inr r' \<and>
      map t_browser (report_tests (ctrfReport r')) =
        map t_browser (report_tests (ctrfReport (constructor None))) @ [None])"
proof -
  have m: "minimal (reporterConfigOptions (constructor None)) = Some False"
    by (simp add: constructor_def orElse_def)
  have n1: "optProp (fst (extractMetadata demoRuntime fullMetadata (console (constructor None))))
              ''name'' = Some (JStr ''chromium'')"
    by (simp add: extractMetadata_def fullMetadata_def demoResult_def demoRuntime_def)
  have v1: "optProp (fst (extractMetadata demoRuntime fullMetadata (console (constructor None))))
              ''version'' = Some (JStr ''120.0'')"
    by (simp add: extractMetadata_def fullMetadata_def demoResult_def demoRuntime_def)
  have t1: "templateText demoRuntime (Some (JStr ''chromium'')) = Inr ''chromium''"
    and t2: "templateText demoRuntime (Some (JStr ''120.0'')) = Inr ''120.0''"
    by (simp_all add: templateText_def)
  have n2: "optProp (fst (extractMetadata demoRuntime (demoResult ''passed'' None [])
                   (console (constructor None)))) ''name'' = None"
    and v2: "optProp (fst (extractMetadata demoRuntime (demoResult ''passed'' None [])
                   (console (constructor None)))) ''version'' = None"
    by (simp_all add: extractMetadata_def demoResult_def)
  note general = browser_from_metadata [OF m, where rt = demoRuntime and tr = fullMetadata
      and n = "JStr ''chromium''" and v = "JStr ''120.0''" and sn = "''chromium''"
      and sv = "''120.0''" and a = "''chromium''" and b = "''120.0''"
      and tc = "demoTest ''opens'' []"]
  note absent = browser_from_metadata [OF m, where rt = demoRuntime
      and tr = "demoResult ''passed'' None []"
      and n = "JStr ''chromium''" and v = "JStr ''120.0''" and sn = "''chromium''"
      and sv = "''120.0''" and a = "''chromium''" and b = "''120.0''"
      and tc = "demoTest ''opens'' []"]
  from general [THEN conjunct1] n1 v1 t1 t2
  have g: "\<exists>r'. updateCtrfTestResultsFromTestResult demoRuntime (demoTest ''opens'' [])
            (Some fullMetadata) (constructor None) = Inr r' \<and>
      map t_browser (report_tests (ctrfReport r')) =
        map t_browser (report_tests (ctrfReport (constructor None))) @ [Some ''chromium 120.0'']"
    by simp
  from general [THEN conjunct2, THEN conjunct1] n1 v1
  have "\<exists>r'. updateCtrfTestResultsFromTestResult demoRuntime (demoTest ''opens'' [])
            (Some fullMetadata) (constructor None) = Inr r' \<and>
      map t_browser (report_tests (ctrfReport r')) =
        map t_browser (report_tests (ctrfReport (constructor None))) @ [Some ''chromium 120.0'']"
    by simp
  from absent [THEN conjunct2, THEN conjunct2] n2 v2
  have "\<exists>r'. updateCtrfTestResultsFromTestResult demoRuntime (demoTest ''opens'' [])
            (Some (demoResult ''passed'' None [])) (constructor None) = Inr r' \<and>
      map t_browser (report_tests (ctrfReport r')) =
        map t_browser (report_tests (ctrfReport (constructor None))) @ [None]"
    by simp
  with g show ?thesis using m n1 v1 t1 t2 n2 v2 by simp
qed

subsection \<open>Test cases without an attempt\<close>

lemma processTest_no_results:
  "results tc = [] \<Longrightarrow> processTest rt tc r = Inl undefinedRead"
  by (simp add: processTest_def at_index_def updateCtrfTestResultsFromTestResult_def)

lemma processTests_results:
  "processTests rt ts r = Inr r' \<Longrightarrow> list_all (\<lambda>t. results t \<noteq> []) ts"
proof (induction ts arbitrary: r)
  case Nil
  then show ?case by simp
next
  case (Cons t ts)
  from Cons.prems obtain r1 where t: "processTest rt t r = Inr r1"
    and ts: "processTests rt ts r1 = Inr r'"
    by (auto split: sum.splits)
  from t have "results t \<noteq> []"
    using processTest_no_results [of t rt r] by auto
  with Cons.IH [OF ts] show ?case by simp
qed

lemma processSuite_results:
  "processSuite rt s r = Inr r' \<Longrightarrow> list_all (\<lambda>t. results t \<noteq> []) (testsOf s)"
  "processSuites rt ss r = Inr r' \<Longrightarrow>
     list_all (\<lambda>t. results t \<noteq> []) (concat (map testsOf ss))"
proof (induction rt s r and rt ss r arbitrary: r' and r' rule: processSuite_processSuites.induct)
  case (1 rt ts ss r)
  then show ?case
    by (auto split: sum.splits dest: processTests_results)
next
  case (2 rt r)
  then show ?case by simp
next
  case (3 rt childSuite ss r)
  then show ?case
    by (auto split: sum.splits)
qed

lemma onEnd_processSuite:
  "suite r = Some s \<Longrightarrow> onEnd rt now r = Inr r' \<Longrightarrow>
   \<exists>r2. processSuite rt s
           (r\<lparr>ctrfReport := (ctrfReport r)\<lparr>summary := (summary (ctrfReport r))\<lparr>stop := now\<rparr>\<rparr>\<rparr>)
         = Inr r2"
  by (auto simp: onEnd_def Let_def split: sum.splits)

text \<open>
  C10. For a test case with no attempt, the read at index \<open>length - 1\<close> gives
  \<open>undefined\<close> and \<open>processTest\<close> throws on the first property it reads. So \<open>processSuite\<close>
  and \<open>onEnd\<close> return normally only if every test case of the visited suites has an
  attempt.
\<close>

theorem results_must_not_be_empty:
  "(results tc = [] \<longrightarrow>
      at_index (results tc) (int (length (results tc)) - 1) = None \<and>
      processTest rt tc r = Inl undefinedRead) \<and>
   (processSuite rt s r = Inr r' \<longrightarrow> list_all (\<lambda>t. results t \<noteq> []) (testsOf s)) \<and>
   (suite r = Some s \<and> onEnd rt now r = Inr r' \<longrightarrow>
      list_all (\<lambda>t. results t \<noteq> []) (testsOf s))"
proof (intro conjI impI)
  assume "results tc = []"
  then show "at_index (results tc) (int (length (results tc)) - 1) = None"
    by (simp add: at_index_def)
next
  assume "results tc = []"
  then show "processTest rt tc r = Inl undefinedRead"
    by (rule processTest_no_results)
next
  assume "processSuite rt s r = Inr r'"
  then show "list_all (\<lambda>t. results t \<noteq> []) (testsOf s)"
    by (rule processSuite_results(1))
next
  assume "suite r = Some s \<and> onEnd rt now r = Inr r'"
  then obtain r2 where "processSuite rt s
           (r\<lparr>ctrfReport := (ctrfReport r)\<lparr>summary := (summary (ctrfReport r))\<lparr>stop := now\<rparr>\<rparr>\<rparr>)
         = Inr r2"
    using onEnd_processSuite by blast
  then show "list_all (\<lambda>t. results t \<noteq> []) (testsOf s)"
    by (rule processSuite_results(1))
qed

lemma not_isl_Inr: "\<not> isl x \<Longrightarrow> \<exists>y. x = Inr y"
  by (cases x) simp_all

lemma demo_processSuite: "\<not> isl (processSuite demoRuntime demoSuite (constructor None))"
  by code_simp

lemma demo_onEnd:
  "\<not> isl (onEnd demoRuntime 2000 ((constructor None)\<lparr>suite := Some demoSuite\<rparr>))"
  by code_simp

theorem results_must_not_be_empty_witness:
  "results (demoTest ''opens'' []) = [] \<and>
   at_index (results (demoTest ''opens'' []))
     (int (length (results (demoTest ''opens'' []))) - 1) = None \<and>
   processTest demoRuntime (demoTest ''opens'' []) (constructor None) = Inl undefinedRead \<and>
   (\<exists>r'. processSuite demoRuntime demoSuite (constructor None) = Inr r') \<and>
   suite ((constructor None)\<lparr>suite := Some demoSuite\<rparr>) = Some demoSuite \<and>
   (\<exists>r'. onEnd demoRuntime 2000 ((constructor None)\<lparr>suite := Some demoSuite\<rparr>) = Inr r') \<and>
   list_all (\<lambda>t. results t \<noteq> []) (testsOf demoSuite)"
proof -
  have e: "results (demoTest ''opens'' []) = []"
    by (simp add: demoTest_def)
  obtain r1 where p: "processSuite demoRuntime demoSuite (constructor None) = Inr r1"
    using not_isl_Inr [OF demo_processSuite] by blast
  have s: "suite ((constructor None)\<lparr>suite := Some demoSuite\<rparr>) = Some demoSuite"
    by simp
  obtain r2 where o: "onEnd demoRuntime 2000 ((constructor None)\<lparr>suite := Some demoSuite\<rparr>) = Inr r2"
    using not_isl_Inr [OF demo_onEnd] by blast
  note a = results_must_not_be_empty [of "demoTest ''opens'' []" demoRuntime "constructor None"
      demoSuite r1 2000]
  note b = results_must_not_be_empty [of "demoTest ''opens'' []" demoRuntime
      "(constructor None)\<lparr>suite := Some demoSuite\<rparr>" demoSuite r2 2000]
  from a e p have "at_index (results (demoTest ''opens'' []))
     (int (length (results (demoTest ''opens'' []))) - 1) = None \<and>
     processTest demoRuntime (demoTest ''opens'' []) (constructor None) = Inl undefinedRead \<and>
     list_all (\<lambda>t. results t \<noteq> []) (testsOf demoSuite)"
    by blast
  moreover from b s o have "list_all (\<lambda>t. results t \<noteq> []) (testsOf demoSuite)"
    by blast
  ultimately show ?thesis using e p s o by blast
qed

text \<open>
  When the conversion of a template literal never throws, an attempt for every test case
  is also enough for the traversal to return.
\<close>

lemma templateText_returns:
  assumes "\<And>v. \<exists>s. ToString rt v = Inr s"
  shows "\<exists>s. templateText rt x = Inr s"
  using assms by (simp add: templateText_def split: option.splits json.splits)

lemma browserTemplate_returns:
  assumes "\<And>v. \<exists>s. ToString rt v = Inr s"
  shows "\<exists>b c'. browserTemplate rt tr c = Inr (b, c')"
proof -
  obtain sn where sn: "templateText rt (optProp (fst (extractMetadata rt tr c)) ''name'') = Inr sn"
    using templateText_returns [OF assms] by blast
  obtain sv where sv: "templateText rt (optProp (fst (extractMetadata rt tr c)) ''version'') = Inr sv"
    using templateText_returns [OF assms] by blast
  from browserTemplate_value [OF sn sv] show ?thesis by blast
qed

lemma updateCtrf_returns:
  assumes "\<And>v. \<exists>s. ToString rt v = Inr s"
  shows "\<exists>r'. updateCtrfTestResultsFromTestResult rt tc (Some tr) r = Inr r'"
proof -
  obtain c c2 where c: "browserCondition rt tr (console r) = (c, c2)"
    by (cases "browserCondition rt tr (console r)")
  obtain b c4 where b: "browserTemplate rt tr c2 = Inr (b, c4)"
    using browserTemplate_returns [OF assms] by blast
  from c b show ?thesis
    by (cases c) (simp_all add: updateCtrfTestResultsFromTestResult_def Let_def)
qed

lemma latestResult_nonempty:
  "xs \<noteq> [] \<Longrightarrow> at_index xs (int (length xs) - 1) = Some (last xs)"
  by (cases xs rule: rev_cases) (simp_all add: at_index_def nth_append)

lemma processTest_returns:
  assumes "\<And>v. \<exists>s. ToString rt v = Inr s" and "results tc \<noteq> []"
  shows "\<exists>r'. processTest rt tc r = Inr r'"
proof -
  from updateCtrf_returns [OF assms(1)] obtain r1
    where "updateCtrfTestResultsFromTestResult rt tc (Some (last (results tc))) r = Inr r1"
    by blast
  moreover from updateSummary_returns obtain r2
    where "updateSummaryFromTestResult (Some (last (results tc))) r1 = Inr r2"
    by blast
  ultimately show ?thesis
    using latestResult_nonempty [OF assms(2)] by (simp add: processTest_def)
qed

lemma processTests_returns:
  assumes "\<And>v. \<exists>s. ToString rt v = Inr s"
  shows "list_all (\<lambda>t. results t \<noteq> []) ts \<Longrightarrow> \<exists>r'. processTests rt ts r = Inr r'"
proof (induction ts arbitrary: r)
  case Nil
  then show ?case by simp
next
  case (Cons t ts)
  then obtain r1 where "processTest rt t r = Inr r1"
    using processTest_returns [OF assms, of t r] by auto
  moreover from Cons obtain r2 where "processTests rt ts r1 = Inr r2"
    by auto
  ultimately show ?case by simp
qed

lemma processSuite_returns:
  "(\<And>v. \<exists>s. ToString rt v = Inr s) \<Longrightarrow> list_all (\<lambda>t. results t \<noteq> []) (testsOf s) \<Longrightarrow>
     \<exists>r'. processSuite rt s r = Inr r'"
  "(\<And>v. \<exists>s. ToString rt v = Inr s) \<Longrightarrow>
     list_all (\<lambda>t. results t \<noteq> []) (concat (map testsOf ss)) \<Longrightarrow>
     \<exists>r'. processSuites rt ss r = Inr r'"
proof (induction rt s r and rt ss r rule: processSuite_processSuites.induct)
  case (1 rt ts ss r)
  from "1.prems" obtain r1 where t: "processTests rt ts r = Inr r1"
    using processTests_returns [of rt ts r] by auto
  from "1.IH" [OF t "1.prems"(1)] "1.prems"(2) obtain r2
    where "processSuites rt ss r1 = Inr r2" by auto
  with t show ?case by simp
next
  case (2 rt r)
  then show ?case by simp
next
  case (3 rt childSuite ss r)
  from "3.IH"(1) [OF "3.prems"(1)] "3.prems"(2) obtain r1
    where c: "processSuite rt childSuite r = Inr r1" by auto
  from "3.IH"(2) [OF c "3.prems"(1)] "3.prems"(2) obtain r2
    where "processSuites rt ss r1 = Inr r2" by auto
  with c show ?case by simp
qed

end
